theory Spec2Isabelle
  imports
    Complex_Main
    "HOL-Library.Word"
    "HOL-Library.Signed_Division"
    "HOL-Library.Log_Nat"
begin

section \<open>The metrics facade of flagd: \<^verbatim>\<open>core/pkg/telemetry/metrics.go\<close>\<close>

text \<open>
  The package creates five instruments on an OpenTelemetry meter, registers two views that
  replace the default histogram buckets, and offers one recording method per instrument.
  The methods build an attribute list and call \<^verbatim>\<open>Record\<close> or \<^verbatim>\<open>Add\<close> on an instrument
  handle; what the SDK does with the call is outside the package. The model therefore keeps
  the sequence of calls made on the handles as the state of the backend.
\<close>

subsection \<open>Go values: \<^verbatim>\<open>int64\<close>, \<^verbatim>\<open>float64\<close>, \<^verbatim>\<open>error\<close>\<close>

type_synonym int64 = "64 word"

text \<open>
  A finite \<^verbatim>\<open>float64\<close> is a rational \<open>m * 2 ^ e\<close> with a significand of at most 53 bits.
  It is modelled by its exact value. Every operation computes the exact result and rounds
  it to the nearest such number, ties to the even significand (IEEE 754 binary64,
  the only rounding mode of Go). Infinities, NaN and the subnormal range are not modelled:
  no value computed by this package reaches them (the magnitudes lie between \<open>1e-9\<close> and
  \<open>1e19\<close>).
\<close>

type_synonym float64 = rat

definition ilog2 :: "rat \<Rightarrow> int" where
  \<comment> \<open>\<open>\<lfloor>log\<^sub>2 \<bar>q\<bar>\<rfloor>\<close> for \<open>q \<noteq> 0\<close>, from the bit lengths of numerator and denominator\<close>
  "ilog2 q =
     (let (a, b) = quotient_of \<bar>q\<bar>;
          k = bitlen a - bitlen b
      in if 2 powi k \<le> \<bar>q\<bar> then k else k - 1)"

definition round_half_even :: "rat \<Rightarrow> int" where
  "round_half_even x =
     (let f = \<lfloor>x\<rfloor>; r = x - of_int f
      in if r < 1 / 2 then f
         else if 1 / 2 < r then f + 1
         else if even f then f else f + 1)"

definition round_f64 :: "rat \<Rightarrow> float64" where
  "round_f64 q =
     (if q = 0 then 0
      else let ulp = 2 powi (ilog2 q - 52)
           in of_int (round_half_even (q / ulp)) * ulp)"

definition f64_add :: "float64 \<Rightarrow> float64 \<Rightarrow> float64" where
  "f64_add x y = round_f64 (x + y)"

definition f64_mul :: "float64 \<Rightarrow> float64 \<Rightarrow> float64" where
  "f64_mul x y = round_f64 (x * y)"

definition f64_div :: "float64 \<Rightarrow> float64 \<Rightarrow> float64" where
  \<comment> \<open>the divisor is a non-zero constant wherever the package divides\<close>
  "f64_div x y = round_f64 (x / y)"

definition float64_of_int64 :: "int64 \<Rightarrow> float64" where
  \<comment> \<open>the conversion \<^verbatim>\<open>float64(n)\<close> of a signed 64-bit integer\<close>
  "float64_of_int64 n = round_f64 (of_int (sint n))"

definition float64_const :: "rat \<Rightarrow> float64" where
  \<comment> \<open>a decimal constant of the source, converted to \<^verbatim>\<open>float64\<close> by the compiler\<close>
  "float64_const q = round_f64 q"

text \<open>
  An \<^verbatim>\<open>error\<close> is \<^verbatim>\<open>nil\<close> or a value with a message: \<open>None\<close> is \<^verbatim>\<open>nil\<close>, and
  \<open>Some m\<close> is an error whose \<^verbatim>\<open>Error()\<close> is \<open>m\<close>.
\<close>

type_synonym error = "string option"

subsection \<open>Attributes\<close>

text \<open>
  \<^verbatim>\<open>attribute.KeyValue\<close> is a key with a typed value; \<^verbatim>\<open>Key.String(v)\<close> builds the pair
  whose value is the string \<open>v\<close>.
\<close>

datatype Value = BOOL bool | INT64 int64 | FLOAT64 float64 | STRING string

record KeyValue =
  Key :: string
  Value :: Value

definition Key_String :: "string \<Rightarrow> string \<Rightarrow> KeyValue" where
  "Key_String k v = \<lparr>Key = k, Value = STRING v\<rparr>"

definition requestDurationName :: string where
  "requestDurationName = ''http_request_duration_seconds''"

definition responseSizeName :: string where
  "responseSizeName = ''http_response_size_bytes''"

definition FlagdProviderName :: string where
  "FlagdProviderName = ''flagd''"

definition FeatureFlagReasonKeyName :: string where
  "FeatureFlagReasonKeyName = ''feature_flag.reason''"

definition ExceptionTypeKeyName :: string where
  "ExceptionTypeKeyName = ''exception.type''"

definition FeatureFlagReasonKey :: string where
  "FeatureFlagReasonKey = FeatureFlagReasonKeyName"

definition ExceptionTypeKey :: string where
  "ExceptionTypeKey = ExceptionTypeKeyName"

text \<open>
  Modelled from the spec: the attribute keys of the semantic-conventions library
  (\<^verbatim>\<open>semconv\<close> v1.18.0), which is not under \<^verbatim>\<open>src/\<close>. The spec calls them the
  standardized keys for service name, URL, method, status code and the fixed provider-name
  attribute; the strings are the ones that version of the library declares.
\<close>

definition ServiceNameKey :: string where
  "ServiceNameKey = ''service.name''"

definition HTTPURLKey :: string where
  "HTTPURLKey = ''http.url''"

definition HTTPMethodKey :: string where
  "HTTPMethodKey = ''http.method''"

definition HTTPStatusCodeKey :: string where
  "HTTPStatusCodeKey = ''http.status_code''"

definition FeatureFlagProviderNameKey :: string where
  "FeatureFlagProviderNameKey = ''feature_flag.provider_name''"

definition FeatureFlagProviderName :: "string \<Rightarrow> KeyValue" where
  "FeatureFlagProviderName val = Key_String FeatureFlagProviderNameKey val"

definition FeatureFlagReason :: "string \<Rightarrow> KeyValue" where
  "FeatureFlagReason val = Key_String FeatureFlagReasonKey val"

definition ExceptionType :: "string \<Rightarrow> KeyValue" where
  "ExceptionType val = Key_String ExceptionTypeKey val"

subsection \<open>Instruments, the recorder and the backend\<close>

text \<open>
  An instrument handle is identified by what the meter was asked to create: the kind, the
  name, the scope of the meter, the description and the unit.
\<close>

datatype InstrumentKind = Float64Histogram_kind | Int64UpDownCounter_kind | Int64Counter_kind

record handle =
  hKind :: InstrumentKind
  hName :: string
  hScope :: string
  hDescription :: string
  hUnit :: string

record MetricsRecorder =
  httpRequestDurHistogram :: handle
  httpResponseSizeHistogram :: handle
  httpRequestsInflight :: handle
  impressions :: handle
  reasons :: handle

text \<open>
  The two calls the package makes on a handle: \<^verbatim>\<open>Record(ctx, value, attrs...)\<close> on a
  histogram and \<^verbatim>\<open>Add(ctx, incr, attrs...)\<close> on a counter. The context is passed on
  unchanged and is opaque here.
\<close>

datatype 'ctx call =
    Record_call handle 'ctx float64 "KeyValue list"
  | Add_call handle 'ctx int64 "KeyValue list"

text \<open>
  The state a method runs in: the recorder it is called on and the calls the backend has
  received so far, oldest first.
\<close>

record 'ctx state =
  recorder :: MetricsRecorder
  calls :: "'ctx call list"

definition Record :: "handle \<Rightarrow> 'ctx \<Rightarrow> float64 \<Rightarrow> KeyValue list \<Rightarrow> 'ctx state \<Rightarrow> 'ctx state" where
  "Record h ctx v attrs s = s\<lparr>calls := calls s @ [Record_call h ctx v attrs]\<rparr>"

definition Add :: "handle \<Rightarrow> 'ctx \<Rightarrow> int64 \<Rightarrow> KeyValue list \<Rightarrow> 'ctx state \<Rightarrow> 'ctx state" where
  "Add h ctx incr attrs s = s\<lparr>calls := calls s @ [Add_call h ctx incr attrs]\<rparr>"

text \<open>
  Modelled from the spec: the accumulation inside the backend, which is not under
  \<^verbatim>\<open>src/\<close>. A counter holds, for each attribute set, the sum of the increments added
  under it, as a signed 64-bit integer and with no clamping. The backend's own notion of
  an attribute set is the parameter \<open>aset\<close>, which maps an attribute list to its set.
\<close>

fun counter_value :: "(KeyValue list \<Rightarrow> 'k) \<Rightarrow> handle \<Rightarrow> 'k \<Rightarrow> 'ctx call list \<Rightarrow> int64" where
  "counter_value aset h k [] = 0"
| "counter_value aset h k (Add_call h' ctx incr attrs # cs) =
     (if h' = h \<and> aset attrs = k then incr else 0) + counter_value aset h k cs"
| "counter_value aset h k (Record_call h' ctx v attrs # cs) = counter_value aset h k cs"

subsection \<open>Durations\<close>

text \<open>
  \<^verbatim>\<open>time.Duration\<close> is an \<^verbatim>\<open>int64\<close> count of nanoseconds. Go's integer division
  truncates towards zero and the remainder takes the sign of the dividend. The standard
  library's \<^verbatim>\<open>Seconds\<close> is
  \<^verbatim>\<open>sec := d / Second; nsec := d % Second; return float64(sec) + float64(nsec)/1e9\<close>.
\<close>

type_synonym Duration = int64

definition Millisecond :: Duration where
  "Millisecond = 1000000"

definition Second :: Duration where
  "Second = 1000000000"

definition int64_quo :: "int64 \<Rightarrow> int64 \<Rightarrow> int64" where
  "int64_quo a b = word_of_int (sint a sdiv sint b)"

definition int64_rem :: "int64 \<Rightarrow> int64 \<Rightarrow> int64" where
  "int64_rem a b = word_of_int (sint a smod sint b)"

definition Seconds :: "Duration \<Rightarrow> float64" where
  "Seconds d =
     (let sec = int64_quo d Second;
          nsec = int64_rem d Second
      in f64_add (float64_of_int64 sec)
           (f64_div (float64_of_int64 nsec) (float64_const 1000000000)))"

subsection \<open>The methods of \<^verbatim>\<open>MetricsRecorder\<close>\<close>

definition HTTPAttributes ::
  "MetricsRecorder \<Rightarrow> string \<Rightarrow> string \<Rightarrow> string \<Rightarrow> string \<Rightarrow> KeyValue list" where
  "HTTPAttributes r svcName url method code =
     [Key_String ServiceNameKey svcName,
      Key_String HTTPURLKey url,
      Key_String HTTPMethodKey method,
      Key_String HTTPStatusCodeKey code]"

definition HTTPRequestDuration ::
  "'ctx \<Rightarrow> Duration \<Rightarrow> KeyValue list \<Rightarrow> 'ctx state \<Rightarrow> 'ctx state" where
  "HTTPRequestDuration ctx duration attrs s =
     Record (httpRequestDurHistogram (recorder s)) ctx (Seconds duration) attrs s"

definition HTTPResponseSize ::
  "'ctx \<Rightarrow> int64 \<Rightarrow> KeyValue list \<Rightarrow> 'ctx state \<Rightarrow> 'ctx state" where
  "HTTPResponseSize ctx sizeBytes attrs s =
     Record (httpResponseSizeHistogram (recorder s)) ctx (float64_of_int64 sizeBytes) attrs s"

definition InFlightRequestStart :: "'ctx \<Rightarrow> KeyValue list \<Rightarrow> 'ctx state \<Rightarrow> 'ctx state" where
  "InFlightRequestStart ctx attrs s = Add (httpRequestsInflight (recorder s)) ctx 1 attrs s"

definition InFlightRequestEnd :: "'ctx \<Rightarrow> KeyValue list \<Rightarrow> 'ctx state \<Rightarrow> 'ctx state" where
  "InFlightRequestEnd ctx attrs s = Add (httpRequestsInflight (recorder s)) ctx (- 1) attrs s"

text \<open>
  \<^verbatim>\<open>SemConvFeatureFlagAttributes(key, variant)\<close> belongs to the package but to another
  file; the methods that call it take it as the parameter \<open>ffAttrs\<close>.
\<close>

definition Impressions ::
  "(string \<Rightarrow> string \<Rightarrow> KeyValue list) \<Rightarrow> 'ctx \<Rightarrow> string \<Rightarrow> string \<Rightarrow> string \<Rightarrow>
   'ctx state \<Rightarrow> 'ctx state" where
  "Impressions ffAttrs ctx reason variant key s =
     Add (impressions (recorder s)) ctx 1 (ffAttrs key variant @ [FeatureFlagReason reason]) s"

definition Reasons :: "'ctx \<Rightarrow> string \<Rightarrow> error \<Rightarrow> 'ctx state \<Rightarrow> 'ctx state" where
  "Reasons ctx reason err s =
     (let attrs = [FeatureFlagProviderName FlagdProviderName, FeatureFlagReason reason];
          attrs = (case err of None \<Rightarrow> attrs | Some msg \<Rightarrow> attrs @ [ExceptionType msg])
      in Add (reasons (recorder s)) ctx 1 attrs s)"

definition RecordEvaluation ::
  "(string \<Rightarrow> string \<Rightarrow> KeyValue list) \<Rightarrow> 'ctx \<Rightarrow> error \<Rightarrow> string \<Rightarrow> string \<Rightarrow> string \<Rightarrow>
   'ctx state \<Rightarrow> 'ctx state" where
  "RecordEvaluation ffAttrs ctx err reason variant key s =
     (let s = (if err = None then Impressions ffAttrs ctx reason variant key s else s)
      in Reasons ctx reason err s)"

subsection \<open>Views and the construction of the recorder\<close>

text \<open>
  \<^verbatim>\<open>metric.NewView(criteria, mask)\<close> pairs the instruments a view selects with the stream it
  gives them. Of the criteria the source sets the instrument name and the name of the
  scope; of the stream it sets the aggregation, an explicit-bucket histogram.
\<close>

record Scope =
  ScopeName :: string

record Instrument =
  Name :: string
  Scope :: Scope

datatype Aggregation = ExplicitBucketHistogram (Boundaries: "float64 list")

record Stream =
  Aggregation :: Aggregation

record View =
  criteria :: Instrument
  mask :: Stream

definition NewView :: "Instrument \<Rightarrow> Stream \<Rightarrow> View" where
  "NewView c m = \<lparr>criteria = c, mask = m\<rparr>"

definition getDurationView :: "string \<Rightarrow> string \<Rightarrow> float64 list \<Rightarrow> View" where
  "getDurationView svcName viewName bucket =
     NewView
       \<lparr>Name = viewName, Scope = \<lparr>ScopeName = svcName\<rparr>\<rparr>
       \<lparr>Aggregation = ExplicitBucketHistogram bucket\<rparr>"

definition view_boundaries :: "View \<Rightarrow> float64 list" where
  "view_boundaries v = Boundaries (Aggregation (mask v))"

text \<open>
  Modelled from the spec: the way the backend, which is not under \<^verbatim>\<open>src/\<close>, applies a
  view. A view is a rule for the instrument of a given name in a given scope: it selects an
  instrument when the name of its criteria is the name of the instrument and the scope of
  its criteria is the scope of the instrument's meter. The names here hold none of the
  wildcard characters of the SDK. An instrument that no registered view selects keeps the
  default aggregation of the backend; \<open>configured_boundaries\<close> lists the boundaries of the
  views that select it, in the order of their registration.
\<close>

definition selects :: "View \<Rightarrow> handle \<Rightarrow> bool" where
  "selects v h \<longleftrightarrow>
     Name (criteria v) = hName h \<and> ScopeName (Scope (criteria v)) = hScope h"

definition configured_boundaries :: "View list \<Rightarrow> handle \<Rightarrow> float64 list list" where
  "configured_boundaries vs h = map view_boundaries (filter (\<lambda>v. selects v h) vs)"

text \<open>
  Modelled from the spec: \<^verbatim>\<open>prometheus.DefBuckets\<close>, a variable of the Prometheus client
  library, which is not under \<^verbatim>\<open>src/\<close>. The spec calls it the backend's standard default
  histogram buckets, in seconds; the eleven decimal constants are the ones the library
  declares.
\<close>

definition DefBuckets :: "float64 list" where
  "DefBuckets =
     map float64_const
       [5 / 1000, 1 / 100, 25 / 1000, 5 / 100, 1 / 10, 25 / 100, 5 / 10, 1, 25 / 10, 5, 10]"

text \<open>
  Modelled from the spec: \<^verbatim>\<open>prometheus.ExponentialBuckets(start, factor, count)\<close>, a
  function of the Prometheus client library, which is not under \<^verbatim>\<open>src/\<close>. It returns
  \<open>count\<close> buckets, the first being \<open>start\<close> and each further one the previous one
  multiplied by \<open>factor\<close>; the library panics unless \<open>count\<close> and \<open>start\<close> are positive and
  \<open>factor\<close> is greater than 1.
\<close>

datatype panic = Panic string

fun ExponentialBuckets_loop :: "nat \<Rightarrow> float64 \<Rightarrow> float64 \<Rightarrow> float64 list" where
  "ExponentialBuckets_loop 0 start factor = []"
| "ExponentialBuckets_loop (Suc n) start factor =
     start # ExponentialBuckets_loop n (f64_mul start factor) factor"

definition ExponentialBuckets :: "float64 \<Rightarrow> float64 \<Rightarrow> int \<Rightarrow> panic + float64 list" where
  "ExponentialBuckets start factor count =
     (if count < 1 then Inl (Panic ''ExponentialBuckets needs a positive count'')
      else if start \<le> 0 then Inl (Panic ''ExponentialBuckets needs a positive start value'')
      else if factor \<le> 1 then Inl (Panic ''ExponentialBuckets needs a factor greater than 1'')
      else Inr (ExponentialBuckets_loop (nat count) start factor))"

text \<open>
  The provider keeps the reader, the views in the order of their registration and the
  resource. A meter is known by the name of its scope, and an instrument created on it
  carries that scope. Every creation call of the SDK also returns an error, which the
  source discards: the handle is kept whatever it is.
\<close>

record ('reader, 'resource) MeterProvider =
  Reader :: 'reader
  Views :: "View list"
  Resource :: 'resource

type_synonym Meter = string

definition Meter :: "('reader, 'resource) MeterProvider \<Rightarrow> string \<Rightarrow> Meter" where
  "Meter provider nm = nm"

definition Float64Histogram :: "Meter \<Rightarrow> string \<Rightarrow> string \<Rightarrow> string \<Rightarrow> handle" where
  "Float64Histogram meter nm desc un =
     \<lparr>hKind = Float64Histogram_kind, hName = nm, hScope = meter, hDescription = desc, hUnit = un\<rparr>"

definition Int64UpDownCounter :: "Meter \<Rightarrow> string \<Rightarrow> string \<Rightarrow> handle" where
  "Int64UpDownCounter meter nm desc =
     \<lparr>hKind = Int64UpDownCounter_kind, hName = nm, hScope = meter, hDescription = desc,
      hUnit = []\<rparr>"

definition Int64Counter :: "Meter \<Rightarrow> string \<Rightarrow> string \<Rightarrow> handle" where
  "Int64Counter meter nm desc =
     \<lparr>hKind = Int64Counter_kind, hName = nm, hScope = meter, hDescription = desc, hUnit = []\<rparr>"

text \<open>
  \<^verbatim>\<open>NewOTelRecorder\<close> returns the recorder; the provider it builds on the way is returned
  with it here, since the views live there. A panic of \<^verbatim>\<open>ExponentialBuckets\<close> would end
  the constructor.
\<close>

definition NewOTelRecorder ::
  "'reader \<Rightarrow> 'resource \<Rightarrow> string \<Rightarrow>
   panic + (('reader, 'resource) MeterProvider \<times> MetricsRecorder)" where
  "NewOTelRecorder exporter resource serviceName =
     (case ExponentialBuckets (float64_const 100) (float64_const 10) 8 of
        Inl p \<Rightarrow> Inl p
      | Inr sizeBuckets \<Rightarrow>
          let provider =
                \<lparr>Reader = exporter,
                 Views =
                   [getDurationView requestDurationName serviceName DefBuckets,
                    getDurationView responseSizeName serviceName sizeBuckets],
                 Resource = resource\<rparr>;
              meter = Meter provider serviceName;
              hduration =
                Float64Histogram meter requestDurationName
                  ''The latency of the HTTP requests'' [];
              hsize =
                Float64Histogram meter responseSizeName
                  ''The size of the HTTP responses'' ''By'';
              reqCounter =
                Int64UpDownCounter meter ''http_requests_inflight''
                  ''The number of inflight requests being handled at the same time'';
              impressions =
                Int64Counter meter ''impressions''
                  ''The number of evaluations for a given flag'';
              reasons =
                Int64Counter meter ''reasons''
                  ''The number of evaluations for a given reason''
          in Inr (provider,
                  \<lparr>httpRequestDurHistogram = hduration,
                   httpResponseSizeHistogram = hsize,
                   httpRequestsInflight = reqCounter,
                   impressions = impressions,
                   reasons = reasons\<rparr>))"

text \<open>
  The recorder the constructor returns for the service name \<^verbatim>\<open>flagd\<close>, written out; it is
  the concrete recorder of the examples below.
\<close>

definition flagd_recorder :: MetricsRecorder where
  "flagd_recorder =
     \<lparr>httpRequestDurHistogram =
        Float64Histogram ''flagd'' requestDurationName ''The latency of the HTTP requests'' [],
      httpResponseSizeHistogram =
        Float64Histogram ''flagd'' responseSizeName ''The size of the HTTP responses'' ''By'',
      httpRequestsInflight =
        Int64UpDownCounter ''flagd'' ''http_requests_inflight''
          ''The number of inflight requests being handled at the same time'',
      impressions =
        Int64Counter ''flagd'' ''impressions'' ''The number of evaluations for a given flag'',
      reasons =
        Int64Counter ''flagd'' ''reasons'' ''The number of evaluations for a given reason''\<rparr>"

section \<open>Properties\<close>

subsection \<open>Rounding of integers\<close>

lemma round_half_even_of_int [simp]: "round_half_even (of_int z) = z"
  by (simp add: round_half_even_def Let_def)

lemma quotient_of_abs_of_int: "quotient_of \<bar>of_int z :: rat\<bar> = (\<bar>z\<bar>, 1)"
proof -
  have "\<bar>of_int z :: rat\<bar> = of_int \<bar>z\<bar>" by simp
  also have "quotient_of (of_int \<bar>z\<bar> :: rat) = (\<bar>z\<bar>, 1)"
    by (simp add: of_int_rat quotient_of_Fract)
  finally show ?thesis .
qed

lemma bitlen_1: "bitlen 1 = 1"
  by (simp add: bitlen_alt_def)

lemma two_powi_bitlen_le:
  assumes "z \<noteq> 0"
  shows "(2::rat) powi (bitlen \<bar>z\<bar> - 1) \<le> \<bar>of_int z\<bar>"
proof -
  have pos: "0 < \<bar>z\<bar>" using assms by simp
  have ge1: "0 \<le> bitlen \<bar>z\<bar> - 1" using pos by (simp add: bitlen_alt_def)
  have "(2::int) ^ nat (bitlen \<bar>z\<bar> - 1) \<le> \<bar>z\<bar>"
    using bitlen_bounds [OF pos] by simp
  then have "(of_int ((2::int) ^ nat (bitlen \<bar>z\<bar> - 1)) :: rat) \<le> of_int \<bar>z\<bar>"
    by (simp only: of_int_le_iff)
  then have "(2::rat) ^ nat (bitlen \<bar>z\<bar> - 1) \<le> \<bar>of_int z\<bar>"
    by simp
  then show ?thesis
    using ge1 by (simp only: power_int_def if_True)
qed

text \<open>The exponent of a non-zero integer is its bit length less one.\<close>

lemma ilog2_of_int:
  assumes "z \<noteq> 0"
  shows "ilog2 (of_int z) = bitlen \<bar>z\<bar> - 1"
proof -
  have "ilog2 (of_int z) =
      (if (2::rat) powi (bitlen \<bar>z\<bar> - bitlen 1) \<le> \<bar>of_int z\<bar>
       then bitlen \<bar>z\<bar> - bitlen 1 else bitlen \<bar>z\<bar> - bitlen 1 - 1)"
    by (simp only: ilog2_def quotient_of_abs_of_int Let_def prod.case)
  then show ?thesis
    by (simp only: bitlen_1 two_powi_bitlen_le [OF assms] if_True)
qed

text \<open>
  An integer of magnitude below \<open>2 ^ 53\<close> fits the significand, so rounding leaves it as it
  is, and the conversion of such an \<^verbatim>\<open>int64\<close> is exact.
\<close>

lemma round_f64_of_int_exact:
  assumes "\<bar>z\<bar> < 2 ^ 53"
  shows "round_f64 (of_int z) = of_int z"
proof (cases "z = 0")
  case True
  then show ?thesis by (simp add: round_f64_def)
next
  case False
  then have pos: "0 < \<bar>z\<bar>" by simp
  define e where "e = bitlen \<bar>z\<bar> - 1"
  have e: "ilog2 (of_int z) = e"
    unfolding e_def using False by (rule ilog2_of_int)
  have "(2::int) ^ nat e \<le> \<bar>z\<bar>"
    using bitlen_bounds [OF pos] by (simp add: e_def)
  with assms have "(2::int) ^ nat e < 2 ^ 53" by (rule le_less_trans [rotated])
  then have "nat e < 53"
    by (rule power_less_imp_less_exp [rotated]) simp
  then have le: "e \<le> 52" by linarith
  define n where "n = nat (52 - e)"
  have "(2::rat) powi (e - 52) = inverse (2 powi (52 - e))"
    using power_int_minus [of "2::rat" "52 - e"] by simp
  also have "(2::rat) powi (52 - e) = 2 ^ n"
    using le by (simp add: power_int_def n_def)
  finally have ulp: "(2::rat) powi (e - 52) = inverse (2 ^ n)" .
  have nz: "(of_int z :: rat) \<noteq> 0" using False by simp
  have "round_f64 (of_int z) =
      of_int (round_half_even (of_int z / inverse (2 ^ n))) * inverse (2 ^ n)"
    by (simp only: round_f64_def nz if_False Let_def e ulp)
  also have "(of_int z :: rat) / inverse (2 ^ n) = of_int (z * 2 ^ n)"
    by (simp add: field_simps)
  also have "round_half_even (of_int (z * 2 ^ n)) = z * 2 ^ n"
    by (rule round_half_even_of_int)
  also have "(of_int (z * 2 ^ n) :: rat) * inverse (2 ^ n) = of_int z"
    by (simp add: field_simps)
  finally show ?thesis .
qed

lemma float64_of_int64_exact:
  assumes "\<bar>sint n\<bar> < 2 ^ 53"
  shows "float64_of_int64 n = of_int (sint n)"
  unfolding float64_of_int64_def using assms by (rule round_f64_of_int_exact)

subsection \<open>Calls on a handle\<close>

lemma calls_Add [simp]: "calls (Add h ctx incr attrs s) = calls s @ [Add_call h ctx incr attrs]"
  by (simp add: Add_def)

lemma calls_Record [simp]:
  "calls (Record h ctx v attrs s) = calls s @ [Record_call h ctx v attrs]"
  by (simp add: Record_def)

lemma recorder_Add [simp]: "recorder (Add h ctx incr attrs s) = recorder s"
  by (simp add: Add_def)

lemma recorder_Record [simp]: "recorder (Record h ctx v attrs s) = recorder s"
  by (simp add: Record_def)

text \<open>The value of a counter over two runs of calls is the sum of its values over each.\<close>

lemma counter_value_append:
  "counter_value aset h k (xs @ ys) = counter_value aset h k xs + counter_value aset h k ys"
proof (induction xs)
  case Nil
  show ?case by simp
next
  case (Cons c cs)
  then show ?case by (cases c) simp_all
qed

lemma reasons_base_no_exception_key:
  "ExceptionTypeKey \<notin>
     set (map Key [FeatureFlagProviderName FlagdProviderName, FeatureFlagReason reason])"
  by (simp add: FeatureFlagProviderName_def FeatureFlagReason_def Key_String_def
      ExceptionTypeKey_def ExceptionTypeKeyName_def FeatureFlagProviderNameKey_def
      FeatureFlagReasonKey_def FeatureFlagReasonKeyName_def)

subsection \<open>Construction\<close>

lemma ExponentialBuckets_size:
  "ExponentialBuckets (float64_const 100) (float64_const 10) 8 =
     Inr [100, 1000, 10000, 100000, 1000000, 10000000, 100000000, 1000000000]"
  by code_simp

lemma DefBuckets_values:
  "DefBuckets =
     [5764607523034235 / 1152921504606846976, 5764607523034235 / 576460752303423488,
      3602879701896397 / 144115188075855872, 3602879701896397 / 72057594037927936,
      3602879701896397 / 36028797018963968, 1 / 4, 1 / 2, 1, 5 / 2, 5, 10]"
  by code_simp

lemma view_boundaries_getDurationView [simp]:
  "view_boundaries (getDurationView a b bs) = bs"
  by (simp add: view_boundaries_def getDurationView_def NewView_def)

lemma criteria_getDurationView [simp]:
  "criteria (getDurationView a b bs) = \<lparr>Name = b, Scope = \<lparr>ScopeName = a\<rparr>\<rparr>"
  by (simp add: getDurationView_def NewView_def)

text \<open>
  The constructor never panics: for every reader, resource and service name it returns a
  provider holding the two views and a recorder.
\<close>

lemma NewOTelRecorder_returns:
  "\<exists>r. NewOTelRecorder exporter resource serviceName =
     Inr (\<lparr>Reader = exporter,
            Views =
              [getDurationView requestDurationName serviceName DefBuckets,
               getDurationView responseSizeName serviceName
                 [100, 1000, 10000, 100000, 1000000, 10000000, 100000000, 1000000000]],
            Resource = resource\<rparr>, r)"
  by (simp add: NewOTelRecorder_def ExponentialBuckets_size Let_def)

lemma NewOTelRecorder_flagd_recorder:
  "\<exists>p. NewOTelRecorder exporter resource ''flagd'' = Inr (p, flagd_recorder)"
  by (simp add: NewOTelRecorder_def ExponentialBuckets_size Let_def flagd_recorder_def Meter_def)

text \<open>
  For every service name, the criteria of both views carry the service name as the
  instrument name and the name of the instrument as the scope: \<^verbatim>\<open>getDurationView\<close> takes
  the scope first and the instrument name second, and the constructor passes them in the
  other order.
\<close>

lemma NewOTelRecorder_view_criteria:
  "\<exists>p r. NewOTelRecorder exporter resource serviceName = Inr (p, r) \<and>
     map criteria (Views p) =
       [\<lparr>Name = serviceName, Scope = \<lparr>ScopeName = requestDurationName\<rparr>\<rparr>,
        \<lparr>Name = serviceName, Scope = \<lparr>ScopeName = responseSizeName\<rparr>\<rparr>]"
  using NewOTelRecorder_returns [of exporter resource serviceName] by auto

text \<open>
  Claim C1. The claim reads: the duration view selects the instrument named
  \<^verbatim>\<open>http_request_duration_seconds\<close> in the scope of the service name, and the size view
  the instrument named \<^verbatim>\<open>http_response_size_bytes\<close> in that scope. The code does not do
  so. For the service name \<^verbatim>\<open>flagd\<close> the instrument-name selector of both views is
  \<^verbatim>\<open>flagd\<close>, and the scope selectors are the two instrument names.
\<close>

theorem NewOTelRecorder_view_selectors_flagd:
  "\<exists>p r. NewOTelRecorder () () ''flagd'' = Inr (p, r) \<and>
     map criteria (Views p) =
       [\<lparr>Name = ''flagd'', Scope = \<lparr>ScopeName = ''http_request_duration_seconds''\<rparr>\<rparr>,
        \<lparr>Name = ''flagd'', Scope = \<lparr>ScopeName = ''http_response_size_bytes''\<rparr>\<rparr>]"
  using NewOTelRecorder_returns [of "()" "()" "''flagd''"]
  by (auto simp: requestDurationName_def responseSizeName_def)

text \<open>
  The view the constructor builds from \<^verbatim>\<open>responseSizeName\<close>, the second one it registers,
  has as its bucket boundaries the result of \<^verbatim>\<open>ExponentialBuckets(100, 10, 8)\<close>, which is
  the eight values 100, 1000, 10000, 100000, 1000000, 10000000, 100000000 and 1000000000.
\<close>

lemma size_view_boundaries:
  "\<exists>p r v1 v2. NewOTelRecorder exporter resource serviceName = Inr (p, r) \<and>
     Views p = [v1, v2] \<and>
     v2 = getDurationView responseSizeName serviceName (view_boundaries v2) \<and>
     ExponentialBuckets (float64_const 100) (float64_const 10) 8 = Inr (view_boundaries v2) \<and>
     view_boundaries v2 =
       [100, 1000, 10000, 100000, 1000000, 10000000, 100000000, 1000000000] \<and>
     length (view_boundaries v2) = 8"
  using NewOTelRecorder_returns [of exporter resource serviceName]
  by (auto simp: ExponentialBuckets_size)

text \<open>
  The size histogram is created under the name \<^verbatim>\<open>http_response_size_bytes\<close> in the scope
  of the service name. The view that carries the eight boundaries has the service name as
  its instrument name and \<^verbatim>\<open>http_response_size_bytes\<close> as its scope, so it selects the
  size histogram only when the service is itself named \<^verbatim>\<open>http_response_size_bytes\<close>; for
  every other service name no registered view selects the size histogram.
\<close>

lemma NewOTelRecorder_size_histogram:
  "\<exists>p r. NewOTelRecorder exporter resource serviceName = Inr (p, r) \<and>
     hName (httpResponseSizeHistogram r) = responseSizeName \<and>
     hScope (httpResponseSizeHistogram r) = serviceName \<and>
     configured_boundaries (Views p) (httpResponseSizeHistogram r) =
       (if serviceName = responseSizeName
        then [[100, 1000, 10000, 100000, 1000000, 10000000, 100000000, 1000000000]]
        else [])"
  by (auto simp: NewOTelRecorder_def ExponentialBuckets_size Let_def Meter_def
      Float64Histogram_def configured_boundaries_def selects_def
      requestDurationName_def responseSizeName_def)

text \<open>
  Claim C4. The claim reads: the bucket boundaries configured for the response-size
  histogram are exactly the eight values 100, 1000, ..., 1000000000. The code does not
  achieve this. For the service name \<^verbatim>\<open>flagd\<close> the size histogram is the instrument
  \<^verbatim>\<open>http_response_size_bytes\<close> in the scope \<^verbatim>\<open>flagd\<close>; the view that carries the eight
  values is registered for the instrument \<^verbatim>\<open>flagd\<close> in the scope
  \<^verbatim>\<open>http_response_size_bytes\<close>; no registered view selects the size histogram, and so no
  boundaries are configured for it.
\<close>

theorem size_histogram_unconfigured_flagd:
  "\<exists>p r. NewOTelRecorder () () ''flagd'' = Inr (p, r) \<and>
     hName (httpResponseSizeHistogram r) = ''http_response_size_bytes'' \<and>
     hScope (httpResponseSizeHistogram r) = ''flagd'' \<and>
     map criteria (filter (\<lambda>v. view_boundaries v =
         [100, 1000, 10000, 100000, 1000000, 10000000, 100000000, 1000000000]) (Views p)) =
       [\<lparr>Name = ''flagd'', Scope = \<lparr>ScopeName = ''http_response_size_bytes''\<rparr>\<rparr>] \<and>
     filter (\<lambda>v. selects v (httpResponseSizeHistogram r)) (Views p) = [] \<and>
     configured_boundaries (Views p) (httpResponseSizeHistogram r) = [] \<and>
     configured_boundaries (Views p) (httpResponseSizeHistogram r) \<noteq>
       [[100, 1000, 10000, 100000, 1000000, 10000000, 100000000, 1000000000]]"
  by (auto simp: NewOTelRecorder_def ExponentialBuckets_size DefBuckets_values Let_def Meter_def
      Float64Histogram_def configured_boundaries_def selects_def
      requestDurationName_def responseSizeName_def)

text \<open>
  Claim C10. The view the constructor builds for \<^verbatim>\<open>http_request_duration_seconds\<close>, the
  first one it registers, has as its bucket boundaries the default buckets of the
  Prometheus library: the eleven constants 0.005, 0.01, 0.025, 0.05, 0.1, 0.25, 0.5, 1,
  2.5, 5 and 10, each as the \<^verbatim>\<open>float64\<close> nearest to it.
\<close>

theorem duration_view_boundaries:
  "\<exists>p r v1 v2. NewOTelRecorder exporter resource serviceName = Inr (p, r) \<and>
     Views p = [v1, v2] \<and>
     v1 = getDurationView requestDurationName serviceName (view_boundaries v1) \<and>
     view_boundaries v1 =
       map float64_const
         [5 / 1000, 1 / 100, 25 / 1000, 5 / 100, 1 / 10, 25 / 100, 5 / 10, 1, 25 / 10, 5, 10] \<and>
     length (view_boundaries v1) = 11"
  using NewOTelRecorder_returns [of exporter resource serviceName]
  by (auto simp: DefBuckets_def)

subsection \<open>Attribute builders\<close>

text \<open>
  Claim C5. For every four strings, \<^verbatim>\<open>HTTPAttributes\<close> returns exactly four attributes, in
  the order service name, URL, method, status code, each under its standardized key and
  each carrying the string it was given; the status code is a string value like the
  others. For \<^verbatim>\<open>("svc", "/x", "GET", "200")\<close> the list is written out.
\<close>

theorem HTTPAttributes_four:
  "HTTPAttributes r svcName url method code =
     [\<lparr>Key = ServiceNameKey, Value = STRING svcName\<rparr>,
      \<lparr>Key = HTTPURLKey, Value = STRING url\<rparr>,
      \<lparr>Key = HTTPMethodKey, Value = STRING method\<rparr>,
      \<lparr>Key = HTTPStatusCodeKey, Value = STRING code\<rparr>] \<and>
   length (HTTPAttributes r svcName url method code) = 4 \<and>
   HTTPAttributes r ''svc'' ''/x'' ''GET'' ''200'' =
     [\<lparr>Key = ''service.name'', Value = STRING ''svc''\<rparr>,
      \<lparr>Key = ''http.url'', Value = STRING ''/x''\<rparr>,
      \<lparr>Key = ''http.method'', Value = STRING ''GET''\<rparr>,
      \<lparr>Key = ''http.status_code'', Value = STRING ''200''\<rparr>]"
  by (simp add: HTTPAttributes_def Key_String_def ServiceNameKey_def HTTPURLKey_def
      HTTPMethodKey_def HTTPStatusCodeKey_def)

subsection \<open>Histograms\<close>

lemma Seconds_1500ms: "Seconds (1500 * Millisecond) = 3 / 2"
  by code_simp

lemma float64_of_2048: "float64_of_int64 2048 = 2048"
  using float64_of_int64_exact [of 2048] by simp

lemma float64_of_minus_2048: "float64_of_int64 (- 2048) = - 2048"
  using float64_of_int64_exact [of "- 2048"] by simp

text \<open>
  Claim C6. For every duration, \<^verbatim>\<open>HTTPRequestDuration\<close> makes one call, \<^verbatim>\<open>Record\<close> on the
  duration histogram, with the value \<^verbatim>\<open>duration.Seconds()\<close>, the context and the
  attributes it was given; a duration of 1500 milliseconds records 1.5.
\<close>

theorem HTTPRequestDuration_records_Seconds:
  "calls (HTTPRequestDuration ctx duration attrs s) =
     calls s @ [Record_call (httpRequestDurHistogram (recorder s)) ctx (Seconds duration) attrs] \<and>
   calls (HTTPRequestDuration ctx (1500 * Millisecond) attrs s) =
     calls s @ [Record_call (httpRequestDurHistogram (recorder s)) ctx (3 / 2) attrs]"
  by (simp add: HTTPRequestDuration_def Seconds_1500ms)

text \<open>
  Claim C8. For every signed 64-bit byte count, \<^verbatim>\<open>HTTPResponseSize\<close> makes one call,
  \<^verbatim>\<open>Record\<close> on the size histogram, with the count converted to \<^verbatim>\<open>float64\<close>; no count is
  checked or rejected. The count 2048 records 2048.0, and the negative count -2048 records
  -2048.0.
\<close>

theorem HTTPResponseSize_records_float:
  "calls (HTTPResponseSize ctx sizeBytes attrs s) =
     calls s @
       [Record_call (httpResponseSizeHistogram (recorder s)) ctx (float64_of_int64 sizeBytes)
          attrs] \<and>
   calls (HTTPResponseSize ctx 2048 attrs s) =
     calls s @ [Record_call (httpResponseSizeHistogram (recorder s)) ctx 2048 attrs] \<and>
   calls (HTTPResponseSize ctx (- 2048) attrs s) =
     calls s @ [Record_call (httpResponseSizeHistogram (recorder s)) ctx (- 2048) attrs]"
  by (simp add: HTTPResponseSize_def float64_of_2048 float64_of_minus_2048)

subsection \<open>Requests in flight\<close>

text \<open>
  Claim C7. \<^verbatim>\<open>InFlightRequestStart\<close> adds 1 to the in-flight counter and
  \<^verbatim>\<open>InFlightRequestEnd\<close> adds -1. After a start followed by an end with the same
  attributes every counter has the value it had before, under every attribute set. An end
  alone lowers the counter of its attribute set by one with no clamping: on a backend that
  has received no call the counter then reads -1.
\<close>

theorem InFlight_start_end:
  "calls (InFlightRequestStart ctx attrs s) =
     calls s @ [Add_call (httpRequestsInflight (recorder s)) ctx 1 attrs] \<and>
   calls (InFlightRequestEnd ctx attrs s) =
     calls s @ [Add_call (httpRequestsInflight (recorder s)) ctx (- 1) attrs] \<and>
   counter_value aset h k
       (calls (InFlightRequestEnd ctx' attrs (InFlightRequestStart ctx attrs s))) =
     counter_value aset h k (calls s) \<and>
   counter_value aset (httpRequestsInflight (recorder s)) (aset attrs)
       (calls (InFlightRequestEnd ctx attrs s)) =
     counter_value aset (httpRequestsInflight (recorder s)) (aset attrs) (calls s) - 1 \<and>
   sint (counter_value aset (httpRequestsInflight r) (aset attrs)
       (calls (InFlightRequestEnd ctx attrs \<lparr>recorder = r, calls = []\<rparr>))) = - 1"
  by (simp add: InFlightRequestStart_def InFlightRequestEnd_def counter_value_append)

subsection \<open>Evaluations\<close>

text \<open>
  Claim C2. For every context, reason, variant and flag key, \<^verbatim>\<open>RecordEvaluation\<close> with a
  \<^verbatim>\<open>nil\<close> error makes exactly two calls: it adds 1 to the impressions counter, under the
  flag attributes followed by the reason, and then adds 1 to the reasons counter, under
  the provider name and the reason. No attribute of the second call has the
  exception-type key.
\<close>

theorem RecordEvaluation_success:
  "calls (RecordEvaluation ffAttrs ctx None reason variant key s) =
     calls s @
       [Add_call (impressions (recorder s)) ctx 1
          (ffAttrs key variant @ [FeatureFlagReason reason]),
        Add_call (reasons (recorder s)) ctx 1
          [FeatureFlagProviderName FlagdProviderName, FeatureFlagReason reason]] \<and>
   ExceptionTypeKey \<notin>
     set (map Key [FeatureFlagProviderName FlagdProviderName, FeatureFlagReason reason])"
  using reasons_base_no_exception_key [of reason]
  by (simp add: RecordEvaluation_def Impressions_def Reasons_def)

text \<open>
  Claim C3. For every error that is not \<^verbatim>\<open>nil\<close>, \<^verbatim>\<open>RecordEvaluation\<close> makes exactly one
  call: it adds 1 to the reasons counter, under the provider name, the reason and an
  exception-type attribute whose value is the message of the error. When the impressions
  counter is another instrument than the reasons counter, its value stays what it was
  under every attribute set. For every error, \<^verbatim>\<open>nil\<close> or not, the attributes of the call
  \<^verbatim>\<open>Reasons\<close> makes have the exception-type key exactly when the error is not \<^verbatim>\<open>nil\<close>.
\<close>

theorem RecordEvaluation_failure:
  "calls (RecordEvaluation ffAttrs ctx (Some msg) reason variant key s) =
     calls s @
       [Add_call (reasons (recorder s)) ctx 1
          [FeatureFlagProviderName FlagdProviderName, FeatureFlagReason reason,
           \<lparr>Key = ExceptionTypeKey, Value = STRING msg\<rparr>]] \<and>
   (impressions (recorder s) \<noteq> reasons (recorder s) \<longrightarrow>
      counter_value aset (impressions (recorder s)) k
        (calls (RecordEvaluation ffAttrs ctx (Some msg) reason variant key s)) =
      counter_value aset (impressions (recorder s)) k (calls s)) \<and>
   (\<exists>attrs. calls (Reasons ctx reason err s) =
        calls s @ [Add_call (reasons (recorder s)) ctx 1 attrs] \<and>
      (ExceptionTypeKey \<in> set (map Key attrs)) = (err \<noteq> None))"
proof -
  have a: "calls (RecordEvaluation ffAttrs ctx (Some msg) reason variant key s) =
     calls s @
       [Add_call (reasons (recorder s)) ctx 1
          [FeatureFlagProviderName FlagdProviderName, FeatureFlagReason reason,
           \<lparr>Key = ExceptionTypeKey, Value = STRING msg\<rparr>]]"
    by (simp add: RecordEvaluation_def Reasons_def ExceptionType_def Key_String_def)
  have c: "\<exists>attrs. calls (Reasons ctx reason err s) =
        calls s @ [Add_call (reasons (recorder s)) ctx 1 attrs] \<and>
      (ExceptionTypeKey \<in> set (map Key attrs)) = (err \<noteq> None)"
  proof (cases err)
    case None
    with reasons_base_no_exception_key [of reason] show ?thesis
      by (simp add: Reasons_def)
  next
    case (Some m)
    then show ?thesis
      by (simp add: Reasons_def ExceptionType_def Key_String_def)
  qed
  from a c show ?thesis
    by (simp add: counter_value_append)
qed

theorem RecordEvaluation_failure_witness:
  "impressions flagd_recorder \<noteq> reasons flagd_recorder \<and>
   calls (RecordEvaluation (\<lambda>k v. []) () (Some ''flag not found'') ''ERROR'' [] ''myFlag''
        \<lparr>recorder = flagd_recorder, calls = []\<rparr>) =
     [Add_call (reasons flagd_recorder) () 1
        [FeatureFlagProviderName FlagdProviderName, FeatureFlagReason ''ERROR'',
         \<lparr>Key = ExceptionTypeKey, Value = STRING ''flag not found''\<rparr>]] \<and>
   counter_value (\<lambda>attrs. attrs) (impressions flagd_recorder) []
     (calls (RecordEvaluation (\<lambda>k v. []) () (Some ''flag not found'') ''ERROR'' [] ''myFlag''
        \<lparr>recorder = flagd_recorder, calls = []\<rparr>)) = 0"
proof -
  have h: "impressions flagd_recorder \<noteq> reasons flagd_recorder"
    by (simp add: flagd_recorder_def Int64Counter_def)
  from RecordEvaluation_failure [of "\<lambda>k v. []" "()" "''flag not found''" "''ERROR''" "[]"
      "''myFlag''" "\<lparr>recorder = flagd_recorder, calls = []\<rparr>" "\<lambda>attrs. attrs" "[]" None] h
  show ?thesis by simp
qed

subsection \<open>The recorder is only read\<close>

text \<open>
  Claim C9. Each of the seven recording operations leaves the recorder, and so its five
  instrument handles, as it was: the operations read the handles and never assign them.
\<close>

theorem recorder_unchanged:
  "recorder (HTTPRequestDuration ctx duration attrs s) = recorder s \<and>
   recorder (HTTPResponseSize ctx sizeBytes attrs s) = recorder s \<and>
   recorder (InFlightRequestStart ctx attrs s) = recorder s \<and>
   recorder (InFlightRequestEnd ctx attrs s) = recorder s \<and>
   recorder (Impressions ffAttrs ctx reason variant key s) = recorder s \<and>
   recorder (Reasons ctx reason err s) = recorder s \<and>
   recorder (RecordEvaluation ffAttrs ctx err reason variant key s) = recorder s"
  by (simp add: HTTPRequestDuration_def HTTPResponseSize_def InFlightRequestStart_def
      InFlightRequestEnd_def Impressions_def Reasons_def RecordEvaluation_def Let_def)

end
